theory Spec2Isabelle
  imports Main "HOL-Library.Word"
begin

unbundle bit_operations_syntax

section \<open>Platform data\<close>

text \<open>
  The application (src/src/application.cpp, src/include/application.h) negotiates a device
  and a swap chain with the Vulkan and GLFW libraries. The libraries are external: what
  they answer is an input of the model. Exceptions are values of \<open>error\<close>:
  \<open>RuntimeError\<close> is \<open>std::runtime_error\<close> with its message, \<open>BadOptionalAccess\<close> is
  what \<open>std::optional::value()\<close> throws on an empty optional, and \<open>UndefinedBehaviour\<close>
  marks the places where C++ gives the program no meaning (an index past the end of a
  vector, \<open>std::clamp\<close> with crossed bounds).
\<close>

datatype error = RuntimeError string | BadOptionalAccess | UndefinedBehaviour

type_synonym uint32_t = "32 word"
type_synonym VkResult = int

definition VK_SUCCESS :: VkResult where
  "VK_SUCCESS = 0"

text \<open>\<open>#define VK_ASSERT(stmt, msg) if(stmt != VK_SUCCESS){throw std::runtime_error(msg);}\<close>\<close>

definition VK_ASSERT :: "VkResult \<Rightarrow> string \<Rightarrow> error + unit" where
  "VK_ASSERT stmt msg = (if stmt \<noteq> VK_SUCCESS then Inl (RuntimeError msg) else Inr ())"

text \<open>Values of the Vulkan headers' enumerations and flag bits that the code names.\<close>

definition VK_QUEUE_GRAPHICS_BIT :: uint32_t where
  "VK_QUEUE_GRAPHICS_BIT = 1"

definition VK_FORMAT_B8G8R8A8_SRGB :: int where
  "VK_FORMAT_B8G8R8A8_SRGB = 50"

definition VK_COLOR_SPACE_SRGB_NONLINEAR_KHR :: int where
  "VK_COLOR_SPACE_SRGB_NONLINEAR_KHR = 0"

definition VK_PRESENT_MODE_MAILBOX_KHR :: int where
  "VK_PRESENT_MODE_MAILBOX_KHR = 1"

definition VK_PRESENT_MODE_FIFO_KHR :: int where
  "VK_PRESENT_MODE_FIFO_KHR = 2"

datatype VkSharingMode = VK_SHARING_MODE_EXCLUSIVE | VK_SHARING_MODE_CONCURRENT

record VkQueueFamilyProperties =
  queueFlags :: uint32_t

record VkExtent2D =
  width :: uint32_t
  height :: uint32_t

record VkSurfaceFormatKHR =
  format :: int
  colorSpace :: int

record VkSurfaceCapabilitiesKHR =
  minImageCount :: uint32_t
  maxImageCount :: uint32_t
  currentExtent :: VkExtent2D
  minImageExtent :: VkExtent2D
  maxImageExtent :: VkExtent2D
  currentTransform :: uint32_t

text \<open>
  What the platform answers about one adapter and the application's surface:
  \<^item> \<open>queueFamilyProperties\<close>: \<open>vkGetPhysicalDeviceQueueFamilyProperties\<close>;
  \<^item> \<open>surfaceSupport i\<close>: the \<open>presentSupport\<close> that
    \<open>vkGetPhysicalDeviceSurfaceSupportKHR\<close> writes for family index \<open>i\<close>;
  \<^item> \<open>extensionCountResult\<close>, \<open>extensionFillResult\<close>, \<open>extensionNames\<close>: the results of
    the two calls of \<open>vkEnumerateDeviceExtensionProperties\<close> (count, then data) and
    the \<open>extensionName\<close> of each entry, as \<open>std::string\<close> reads it;
  \<^item> \<open>capabilitiesResult\<close>, \<open>surfaceCapabilities\<close>:
    \<open>vkGetPhysicalDeviceSurfaceCapabilitiesKHR\<close>;
  \<^item> \<open>surfaceFormats\<close>, \<open>surfacePresentModes\<close>: the lists of
    \<open>vkGetPhysicalDeviceSurfaceFormatsKHR\<close> and
    \<open>vkGetPhysicalDeviceSurfacePresentModesKHR\<close> (their result codes are not read);
  \<^item> \<open>createDeviceResult\<close>: what \<open>vkCreateDevice\<close> returns for this adapter.
\<close>

record VkPhysicalDevice =
  queueFamilyProperties :: "VkQueueFamilyProperties list"
  surfaceSupport :: "uint32_t \<Rightarrow> bool"
  extensionCountResult :: VkResult
  extensionFillResult :: VkResult
  extensionNames :: "string list"
  capabilitiesResult :: VkResult
  surfaceCapabilities :: VkSurfaceCapabilitiesKHR
  surfaceFormats :: "VkSurfaceFormatKHR list"
  surfacePresentModes :: "int list"
  createDeviceResult :: VkResult

section \<open>Queue family resolver\<close>

record QueueFamilyIndicies =
  graphicsFamily :: "uint32_t option"
  presentFamily :: "uint32_t option"

definition isComplete :: "QueueFamilyIndicies \<Rightarrow> bool" where
  "isComplete q = (graphicsFamily q \<noteq> None \<and> presentFamily q \<noteq> None)"

text \<open>
  The range-for of \<open>findQueueFamilies\<close> over \<open>queueProperties\<close>, with the counter \<open>i\<close>
  and the indices found so far. Both assignments are unguarded: a later family
  overwrites an index set by an earlier one.
\<close>

fun findQueueFamilies_loop ::
  "(uint32_t \<Rightarrow> bool) \<Rightarrow> VkQueueFamilyProperties list \<Rightarrow> uint32_t \<Rightarrow>
   QueueFamilyIndicies \<Rightarrow> QueueFamilyIndicies" where
  "findQueueFamilies_loop support [] i indicies = indicies"
| "findQueueFamilies_loop support (prop # props) i indicies =
     (let presentSupport = support i;
          indicies1 = (if queueFlags prop AND VK_QUEUE_GRAPHICS_BIT \<noteq> 0
                       then indicies\<lparr>graphicsFamily := Some i\<rparr> else indicies);
          indicies2 = (if presentSupport
                       then indicies1\<lparr>presentFamily := Some i\<rparr> else indicies1)
      in if isComplete indicies2 then indicies2
         else findQueueFamilies_loop support props (i + 1) indicies2)"

definition findQueueFamilies :: "VkPhysicalDevice \<Rightarrow> QueueFamilyIndicies" where
  "findQueueFamilies device =
     findQueueFamilies_loop (surfaceSupport device) (queueFamilyProperties device) 0
       \<lparr>graphicsFamily = None, presentFamily = None\<rparr>"

text \<open>The two capabilities of the family at position \<open>k\<close> of an adapter.\<close>

definition hasGraphics :: "VkPhysicalDevice \<Rightarrow> nat \<Rightarrow> bool" where
  "hasGraphics device k =
     (k < length (queueFamilyProperties device) \<and>
      queueFlags (queueFamilyProperties device ! k) AND VK_QUEUE_GRAPHICS_BIT \<noteq> 0)"

definition canPresent :: "VkPhysicalDevice \<Rightarrow> nat \<Rightarrow> bool" where
  "canPresent device k =
     (k < length (queueFamilyProperties device) \<and> surfaceSupport device (of_nat k))"

text \<open>
  The resolver as the specification words it: each index is the first family, in index
  order, that has the capability.
\<close>

definition findQueueFamilies_first :: "VkPhysicalDevice \<Rightarrow> QueueFamilyIndicies" where
  "findQueueFamilies_first device =
     \<lparr>graphicsFamily =
        map_option of_nat (find (hasGraphics device) [0..<length (queueFamilyProperties device)]),
      presentFamily =
        map_option of_nat (find (canPresent device) [0..<length (queueFamilyProperties device)])\<rparr>"

text \<open>The last position below \<open>n\<close> that satisfies \<open>P\<close>.\<close>

fun lastIndexBelow :: "(nat \<Rightarrow> bool) \<Rightarrow> nat \<Rightarrow> nat option" where
  "lastIndexBelow P 0 = None"
| "lastIndexBelow P (Suc n) = (if P n then Some n else lastIndexBelow P n)"

section \<open>Suitability evaluator\<close>

text \<open>
  \<open>std::set<std::string> reqExtensions\<close> and the loop that erases every available
  name from it.
\<close>

fun eraseAvailable :: "string list \<Rightarrow> string set \<Rightarrow> string set" where
  "eraseAvailable [] reqExtensions = reqExtensions"
| "eraseAvailable (ext # availableExtensions) reqExtensions =
     eraseAvailable availableExtensions (reqExtensions - {ext})"

text \<open>
  The enumeration idiom of \<open>checkDeviceExtensionSupport\<close> and \<open>createLogicalDevice\<close>
  (the same four lines in both): \<open>vkEnumerateDeviceExtensionProperties\<close> is called for
  the count and again for the data, each call under \<open>VK_ASSERT\<close> with the same message.
\<close>

definition enumerateDeviceExtensions :: "VkPhysicalDevice \<Rightarrow> error + string list" where
  "enumerateDeviceExtensions phyDevice =
     (case VK_ASSERT (extensionCountResult phyDevice) ''Could not enumerate Device Extensions!'' of
        Inl e \<Rightarrow> Inl e
      | Inr _ \<Rightarrow>
     (case VK_ASSERT (extensionFillResult phyDevice) ''Could not enumerate Device Extensions!'' of
        Inl e \<Rightarrow> Inl e
      | Inr _ \<Rightarrow> Inr (extensionNames phyDevice)))"

text \<open>
  \<open>requiredExtensions\<close> is the member \<open>deviceExtensions\<close> of the application
  (\<open>VK_KHR_SWAPCHAIN_EXTENSION_NAME\<close> in the header), passed explicitly.
\<close>

definition checkDeviceExtensionSupport :: "string list \<Rightarrow> VkPhysicalDevice \<Rightarrow> error + bool" where
  "checkDeviceExtensionSupport requiredExtensions phyDevice =
     (case enumerateDeviceExtensions phyDevice of
        Inl e \<Rightarrow> Inl e
      | Inr availableExtensions \<Rightarrow>
          Inr (eraseAvailable availableExtensions (set requiredExtensions) = {}))"

record SwapChainSupportDetails =
  capabilities :: VkSurfaceCapabilitiesKHR
  formats :: "VkSurfaceFormatKHR list"
  presentModes :: "int list"

definition querySwapChainSupport :: "VkPhysicalDevice \<Rightarrow> error + SwapChainSupportDetails" where
  "querySwapChainSupport phyDevice =
     (case VK_ASSERT (capabilitiesResult phyDevice) ''Could not get physical surface capabilities!'' of
        Inl e \<Rightarrow> Inl e
      | Inr _ \<Rightarrow>
          Inr \<lparr>capabilities = surfaceCapabilities phyDevice,
               formats = (if length (surfaceFormats phyDevice) \<noteq> 0
                          then surfaceFormats phyDevice else []),
               presentModes = (if length (surfacePresentModes phyDevice) \<noteq> 0
                               then surfacePresentModes phyDevice else [])\<rparr>)"

definition isDeviceSuitable :: "string list \<Rightarrow> VkPhysicalDevice \<Rightarrow> error + bool" where
  "isDeviceSuitable requiredExtensions phyDevice =
     (let indices = findQueueFamilies phyDevice in
      case checkDeviceExtensionSupport requiredExtensions phyDevice of
        Inl e \<Rightarrow> Inl e
      | Inr supported \<Rightarrow>
          if supported then
            (case querySwapChainSupport phyDevice of
               Inl e \<Rightarrow> Inl e
             | Inr details \<Rightarrow>
                 Inr (isComplete indices \<and> (formats details \<noteq> [] \<and> presentModes details \<noteq> [])))
          else Inr (isComplete indices \<and> False))"

section \<open>Presentation configurator\<close>

fun chooseSwapChainFormat_loop :: "VkSurfaceFormatKHR list \<Rightarrow> VkSurfaceFormatKHR option" where
  "chooseSwapChainFormat_loop [] = None"
| "chooseSwapChainFormat_loop (f # fs) =
     (if format f = VK_FORMAT_B8G8R8A8_SRGB \<and> colorSpace f = VK_COLOR_SPACE_SRGB_NONLINEAR_KHR
      then Some f else chooseSwapChainFormat_loop fs)"

text \<open>\<open>formats[0]\<close> on an empty vector reads past its end: undefined behaviour.\<close>

definition chooseSwapChainFormat :: "VkSurfaceFormatKHR list \<Rightarrow> error + VkSurfaceFormatKHR" where
  "chooseSwapChainFormat availableFormats =
     (case chooseSwapChainFormat_loop availableFormats of
        Some f \<Rightarrow> Inr f
      | None \<Rightarrow>
          (case availableFormats of [] \<Rightarrow> Inl UndefinedBehaviour | f # _ \<Rightarrow> Inr f))"

fun chooseSwapChainPresent :: "int list \<Rightarrow> int" where
  "chooseSwapChainPresent [] = VK_PRESENT_MODE_FIFO_KHR"
| "chooseSwapChainPresent (presentMode # availableModes) =
     (if presentMode = VK_PRESENT_MODE_MAILBOX_KHR then presentMode
      else chooseSwapChainPresent availableModes)"

text \<open>\<open>std::clamp(v, lo, hi)\<close>; the standard leaves it undefined when \<open>hi < lo\<close>.\<close>

definition std_clamp :: "uint32_t \<Rightarrow> uint32_t \<Rightarrow> uint32_t \<Rightarrow> error + uint32_t" where
  "std_clamp v lo hi =
     (if hi < lo then Inl UndefinedBehaviour
      else Inr (if v < lo then lo else if hi < v then hi else v))"

text \<open>
  \<open>framebuffer\<close> is the pair of C \<open>int\<close>s that \<open>glfwGetFramebufferSize\<close> writes;
  \<open>static_cast<uint32_t>\<close> reduces each modulo \<open>2 ^ 32\<close>. Only the width of the
  current extent is compared with \<open>std::numeric_limits<uint32_t>::max()\<close>.
\<close>

definition chooseSwapExtent :: "VkSurfaceCapabilitiesKHR \<Rightarrow> int \<times> int \<Rightarrow> error + VkExtent2D" where
  "chooseSwapExtent caps framebuffer =
     (if width (currentExtent caps) \<noteq> 0xFFFFFFFF then Inr (currentExtent caps)
      else
        let extent = \<lparr>width = word_of_int (fst framebuffer),
                      height = word_of_int (snd framebuffer)\<rparr> in
        case std_clamp (width extent) (width (minImageExtent caps)) (width (maxImageExtent caps)) of
          Inl e \<Rightarrow> Inl e
        | Inr w \<Rightarrow>
       (case std_clamp (height extent) (height (minImageExtent caps)) (height (maxImageExtent caps)) of
          Inl e \<Rightarrow> Inl e
        | Inr h \<Rightarrow> Inr \<lparr>width = w, height = h\<rparr>))"

section \<open>Swap chain creation\<close>

text \<open>
  The fields of \<open>VkSwapchainCreateInfoKHR\<close> that \<open>createSwapChain\<close> computes from
  the negotiation (\<open>createInfo_minImageCount\<close> is its \<open>minImageCount\<close>); the structure
  type, the handles, the image usage and the composite alpha are constants of the code
  and are left out. \<open>pQueueFamilyIndices\<close> is \<open>None\<close> for \<open>nullptr\<close> and the
  pointed-to array otherwise.
\<close>

record VkSwapchainCreateInfoKHR =
  createInfo_minImageCount :: uint32_t
  imageFormat :: int
  imageColorSpace :: int
  imageExtent :: VkExtent2D
  imageArrayLayers :: uint32_t
  imageSharingMode :: VkSharingMode
  queueFamilyIndexCount :: uint32_t
  pQueueFamilyIndices :: "uint32_t list option"
  preTransform :: uint32_t
  presentMode :: int
  clipped :: bool

text \<open>
  \<open>createSwapChain\<close> up to its call of \<open>vkCreateSwapchainKHR\<close>: the create info it
  passes, or the exception that ends it before the call.
\<close>

definition createSwapChain_createInfo ::
  "VkPhysicalDevice \<Rightarrow> int \<times> int \<Rightarrow> error + VkSwapchainCreateInfoKHR" where
  "createSwapChain_createInfo physDevice framebuffer =
     (case querySwapChainSupport physDevice of
        Inl e \<Rightarrow> Inl e
      | Inr support \<Rightarrow>
     (case chooseSwapChainFormat (formats support) of
        Inl e \<Rightarrow> Inl e
      | Inr surfaceFormat \<Rightarrow>
     (let present = chooseSwapChainPresent (presentModes support) in
      case chooseSwapExtent (capabilities support) framebuffer of
        Inl e \<Rightarrow> Inl e
      | Inr extent \<Rightarrow>
     (let imageCount0 = minImageCount (capabilities support) + 1;
          imageCount = (if maxImageCount (capabilities support) > 0 \<and>
                           imageCount0 > maxImageCount (capabilities support)
                        then maxImageCount (capabilities support) else imageCount0);
          indices = findQueueFamilies physDevice in
      case graphicsFamily indices of
        None \<Rightarrow> Inl BadOptionalAccess
      | Some g \<Rightarrow>
     (case presentFamily indices of
        None \<Rightarrow> Inl BadOptionalAccess
      | Some p \<Rightarrow>
          Inr \<lparr>createInfo_minImageCount = imageCount,
               imageFormat = format surfaceFormat,
               imageColorSpace = colorSpace surfaceFormat,
               imageExtent = extent,
               imageArrayLayers = 1,
               imageSharingMode =
                 (if graphicsFamily indices \<noteq> presentFamily indices
                  then VK_SHARING_MODE_CONCURRENT else VK_SHARING_MODE_EXCLUSIVE),
               queueFamilyIndexCount =
                 (if graphicsFamily indices \<noteq> presentFamily indices then 2 else 0),
               pQueueFamilyIndices =
                 (if graphicsFamily indices \<noteq> presentFamily indices then Some [g, p] else None),
               preTransform = currentTransform (capabilities support),
               presentMode = present,
               clipped = True\<rparr>)))))"

section \<open>Application state, logical device, teardown\<close>

record VkDeviceQueueCreateInfo =
  queueFamilyIndex :: uint32_t
  queueCount :: uint32_t

record VkDeviceCreateInfo =
  pQueueCreateInfos :: "VkDeviceQueueCreateInfo list"
  ppEnabledExtensionNames :: "string list"
  ppEnabledLayerNames :: "string list"

text \<open>The calls that create or release a resource, as the application issues them.\<close>

datatype ApiCall =
    vkCreateDevice VkDeviceCreateInfo
  | vkDestroyImageView nat
  | vkDestroySwapchainKHR
  | vkDestroyDevice
  | vkDestroyDebugUtilsMessengerEXT
  | vkDestroySurfaceKHR
  | vkDestroyInstance
  | glfwDestroyWindow
  | glfwTerminate

text \<open>
  The members of \<open>RayTracingApplication\<close> that device creation and teardown touch.
  \<open>device\<close> is \<open>None\<close> until \<open>vkCreateDevice\<close> has written the handle; a queue is
  named by its family and index; \<open>calls\<close> logs the calls issued so far, oldest first.
\<close>

record RayTracingApplication =
  enableValidationLayers :: bool
  validationLayers :: "string list"
  deviceExtensions :: "string list"
  physicalDevice :: VkPhysicalDevice
  device :: "nat option"
  graphicsQueue :: "(uint32_t \<times> uint32_t) option"
  presentQueue :: "(uint32_t \<times> uint32_t) option"
  swapChainImageViews :: "nat list"
  calls :: "ApiCall list"

definition issue :: "ApiCall \<Rightarrow> RayTracingApplication \<Rightarrow> RayTracingApplication" where
  "issue c app = app\<lparr>calls := calls app @ [c]\<rparr>"

text \<open>\<open>std::set<uint32_t> uniqueQueueFamilies = {g, p}\<close>, in its iteration order.\<close>

definition uniqueQueueFamilies :: "uint32_t \<Rightarrow> uint32_t \<Rightarrow> uint32_t list" where
  "uniqueQueueFamilies g p = (if g = p then [g] else if g < p then [g, p] else [p, g])"

text \<open>
  \<open>deviceHandle\<close> is the handle \<open>vkCreateDevice\<close> writes when it succeeds. The result
  pairs the outcome with the application state at that point: an exception leaves the
  members as they were when it was thrown.
\<close>

definition createLogicalDevice ::
  "nat \<Rightarrow> RayTracingApplication \<Rightarrow> (error + unit) \<times> RayTracingApplication" where
  "createLogicalDevice deviceHandle app =
     (let indices = findQueueFamilies (physicalDevice app) in
      case graphicsFamily indices of
        None \<Rightarrow> (Inl BadOptionalAccess, app)
      | Some g \<Rightarrow>
     (case presentFamily indices of
        None \<Rightarrow> (Inl BadOptionalAccess, app)
      | Some p \<Rightarrow>
     (let queueCreateInfos =
            map (\<lambda>queueFamily. \<lparr>queueFamilyIndex = queueFamily, queueCount = 1\<rparr>)
              (uniqueQueueFamilies g p) in
      case enumerateDeviceExtensions (physicalDevice app) of
        Inl e \<Rightarrow> (Inl e, app)
      | Inr availableExtensions \<Rightarrow>
     (let enabledExtensions =
            deviceExtensions app @
            filter (\<lambda>ext. ext = ''VK_KHR_portability_subset'') availableExtensions;
          createInfo =
            \<lparr>pQueueCreateInfos = queueCreateInfos,
             ppEnabledExtensionNames = enabledExtensions,
             ppEnabledLayerNames =
               (if enableValidationLayers app then validationLayers app else [])\<rparr>;
          result = createDeviceResult (physicalDevice app);
          app1 = issue (vkCreateDevice createInfo) app;
          app2 = (if result = VK_SUCCESS then app1\<lparr>device := Some deviceHandle\<rparr> else app1) in
      case VK_ASSERT result ''Could not create logical device!'' of
        Inl e \<Rightarrow> (Inl e, app2)
      | Inr _ \<Rightarrow>
          (Inr (), app2\<lparr>graphicsQueue := Some (g, 0), presentQueue := Some (p, 0)\<rparr>)))))"

text \<open>
  \<open>cleanup\<close>; \<open>destroyMessengerLoaded\<close> says whether \<open>vkGetInstanceProcAddr\<close> found
  \<open>vkDestroyDebugUtilsMessengerEXT\<close> (\<open>func != nullptr\<close>).
\<close>

definition cleanup :: "bool \<Rightarrow> RayTracingApplication \<Rightarrow> RayTracingApplication" where
  "cleanup destroyMessengerLoaded app =
     (let app1 = fold (\<lambda>imageView. issue (vkDestroyImageView imageView))
                   (swapChainImageViews app) app;
          app2 = issue vkDestroySwapchainKHR app1;
          app3 = issue vkDestroyDevice app2;
          app4 = (if enableValidationLayers app3
                  then (if destroyMessengerLoaded
                        then issue vkDestroyDebugUtilsMessengerEXT app3 else app3)
                  else app3);
          app5 = issue vkDestroySurfaceKHR app4;
          app6 = issue vkDestroyInstance app5;
          app7 = issue glfwDestroyWindow app6
      in issue glfwTerminate app7)"

text \<open>
  In a trace, every occurrence of \<open>a\<close> comes strictly before every occurrence of \<open>b\<close>.
\<close>

definition precedes :: "'a \<Rightarrow> 'a \<Rightarrow> 'a list \<Rightarrow> bool" where
  "precedes a b tr =
     (\<forall>i < length tr. \<forall>j < length tr. tr ! i = a \<and> tr ! j = b \<longrightarrow> i < j)"

section \<open>Example platforms\<close>

definition exampleCapabilities ::
  "uint32_t \<Rightarrow> uint32_t \<Rightarrow> VkExtent2D \<Rightarrow> VkSurfaceCapabilitiesKHR" where
  "exampleCapabilities minCount maxCount current =
     \<lparr>minImageCount = minCount, maxImageCount = maxCount, currentExtent = current,
      minImageExtent = \<lparr>width = 100, height = 100\<rparr>,
      maxImageExtent = \<lparr>width = 4000, height = 4000\<rparr>,
      currentTransform = 1\<rparr>"

text \<open>
  An adapter given by the flags of its queue families, the families that can present
  and the surface capabilities; every query succeeds.
\<close>

definition exampleDevice ::
  "uint32_t list \<Rightarrow> (uint32_t \<Rightarrow> bool) \<Rightarrow> VkSurfaceCapabilitiesKHR \<Rightarrow> VkPhysicalDevice" where
  "exampleDevice flags support caps =
     \<lparr>queueFamilyProperties = map (\<lambda>f. \<lparr>queueFlags = f\<rparr>) flags,
      surfaceSupport = support,
      extensionCountResult = VK_SUCCESS,
      extensionFillResult = VK_SUCCESS,
      extensionNames = [''VK_KHR_maintenance1'', ''VK_KHR_swapchain''],
      capabilitiesResult = VK_SUCCESS,
      surfaceCapabilities = caps,
      surfaceFormats = [\<lparr>format = 44, colorSpace = 0\<rparr>, \<lparr>format = 50, colorSpace = 0\<rparr>],
      surfacePresentModes = [2],
      createDeviceResult = VK_SUCCESS\<rparr>"

text \<open>Two graphics-only families, then one that can only present.\<close>

definition threeFamilies :: VkPhysicalDevice where
  "threeFamilies =
     exampleDevice [1, 1, 0] (\<lambda>i. i = 2)
       (exampleCapabilities 2 0 \<lparr>width = 1280, height = 720\<rparr>)"

text \<open>One family that does both.\<close>

definition oneFamily :: "VkSurfaceCapabilitiesKHR \<Rightarrow> VkPhysicalDevice" where
  "oneFamily caps = exampleDevice [1] (\<lambda>i. i = 0) caps"

text \<open>One family with graphics capability; no family can present.\<close>

definition graphicsOnly :: VkPhysicalDevice where
  "graphicsOnly =
     exampleDevice [1] (\<lambda>i. False) (exampleCapabilities 2 0 \<lparr>width = 1280, height = 720\<rparr>)"

text \<open>A current extent whose width alone is the maximum of \<open>uint32_t\<close>.\<close>

definition widthSentinelOnly :: VkSurfaceCapabilitiesKHR where
  "widthSentinelOnly = exampleCapabilities 2 0 \<lparr>width = 0xFFFFFFFF, height = 720\<rparr>"

definition exampleApplication :: "VkPhysicalDevice \<Rightarrow> nat list \<Rightarrow> RayTracingApplication" where
  "exampleApplication phyDevice views =
     \<lparr>enableValidationLayers = True,
      validationLayers = [''VK_LAYER_KHRONOS_validation''],
      deviceExtensions = [''VK_KHR_swapchain''],
      physicalDevice = phyDevice,
      device = None,
      graphicsQueue = None,
      presentQueue = None,
      swapChainImageViews = views,
      calls = []\<rparr>"

section \<open>Auxiliary facts\<close>

lemma drop_eq_Cons_nth:
  assumes "drop k xs = y # ys"
  shows "k < length xs \<and> xs ! k = y \<and> drop (Suc k) xs = ys"
proof -
  have k: "k < length xs" using assms by (cases "k < length xs") auto
  then have "drop k xs = xs ! k # drop (Suc k) xs" by (simp add: Cons_nth_drop_Suc)
  with assms k show ?thesis by simp
qed

text \<open>What \<open>lastIndexBelow\<close> computes.\<close>

lemma lastIndexBelow_None: "lastIndexBelow P n = None \<longleftrightarrow> (\<forall>j<n. \<not> P j)"
  by (induction n) (auto simp: less_Suc_eq)

lemma lastIndexBelow_Some:
  "lastIndexBelow P n = Some k \<longleftrightarrow> k < n \<and> P k \<and> (\<forall>j. k < j \<and> j < n \<longrightarrow> \<not> P j)"
proof (induction n)
  case 0
  show ?case by simp
next
  case (Suc n)
  show ?case
  proof (cases "P n")
    case True
    then show ?thesis
      by (metis lastIndexBelow.simps(2) less_Suc_eq linorder_neqE_nat option.inject not_less_eq)
  next
    case False
    then show ?thesis using Suc
      by (metis lastIndexBelow.simps(2) less_Suc_eq)
  qed
qed

text \<open>
  The invariant of the scan: after \<open>k\<close> families, each index is the last family below
  \<open>k\<close> with the capability, and at no earlier point were both assigned.
\<close>

lemma findQueueFamilies_loop_scan:
  assumes "drop k (queueFamilyProperties phyDevice) = props"
    and "k \<le> length (queueFamilyProperties phyDevice)"
    and "graphicsFamily indicies = map_option of_nat (lastIndexBelow (hasGraphics phyDevice) k)"
    and "presentFamily indicies = map_option of_nat (lastIndexBelow (canPresent phyDevice) k)"
    and "\<forall>m\<le>k. lastIndexBelow (hasGraphics phyDevice) m = None \<or>
               lastIndexBelow (canPresent phyDevice) m = None"
  shows "\<exists>n\<le>length (queueFamilyProperties phyDevice).
           graphicsFamily (findQueueFamilies_loop (surfaceSupport phyDevice) props (of_nat k) indicies)
             = map_option of_nat (lastIndexBelow (hasGraphics phyDevice) n) \<and>
           presentFamily (findQueueFamilies_loop (surfaceSupport phyDevice) props (of_nat k) indicies)
             = map_option of_nat (lastIndexBelow (canPresent phyDevice) n) \<and>
           (n < length (queueFamilyProperties phyDevice) \<longrightarrow>
              isComplete (findQueueFamilies_loop (surfaceSupport phyDevice) props (of_nat k) indicies)) \<and>
           (\<forall>m<n. lastIndexBelow (hasGraphics phyDevice) m = None \<or>
                  lastIndexBelow (canPresent phyDevice) m = None)"
  using assms
proof (induction props arbitrary: k indicies)
  case Nil
  then have "k = length (queueFamilyProperties phyDevice)" by simp
  with Nil show ?case by (intro exI[of _ k]) simp
next
  case (Cons fam fams)
  let ?all = "queueFamilyProperties phyDevice"
  from drop_eq_Cons_nth[OF Cons.prems(1)]
  have k: "k < length ?all" and p: "?all ! k = fam" and d: "drop (Suc k) ?all = fams"
    by simp_all
  define indicies1 where
    "indicies1 = (if queueFlags fam AND VK_QUEUE_GRAPHICS_BIT \<noteq> 0
                  then indicies\<lparr>graphicsFamily := Some (of_nat k)\<rparr> else indicies)"
  define indicies2 where
    "indicies2 = (if surfaceSupport phyDevice (of_nat k)
                  then indicies1\<lparr>presentFamily := Some (of_nat k)\<rparr> else indicies1)"
  have hg: "hasGraphics phyDevice k \<longleftrightarrow> queueFlags fam AND VK_QUEUE_GRAPHICS_BIT \<noteq> 0"
    using k p by (simp add: hasGraphics_def)
  have cp: "canPresent phyDevice k \<longleftrightarrow> surfaceSupport phyDevice (of_nat k)"
    using k by (simp add: canPresent_def)
  have g2: "graphicsFamily indicies2
              = map_option of_nat (lastIndexBelow (hasGraphics phyDevice) (Suc k))"
    using Cons.prems(3) by (simp add: indicies2_def indicies1_def hg)
  have p2: "presentFamily indicies2
              = map_option of_nat (lastIndexBelow (canPresent phyDevice) (Suc k))"
    using Cons.prems(4) by (simp add: indicies2_def indicies1_def cp)
  have step:
    "findQueueFamilies_loop (surfaceSupport phyDevice) (fam # fams) (of_nat k) indicies =
       (if isComplete indicies2 then indicies2
        else findQueueFamilies_loop (surfaceSupport phyDevice) fams (of_nat (Suc k)) indicies2)"
    by (simp add: indicies2_def indicies1_def Let_def add.commute)
  show ?case
  proof (cases "isComplete indicies2")
    case True
    have "\<forall>m<Suc k. lastIndexBelow (hasGraphics phyDevice) m = None \<or>
                     lastIndexBelow (canPresent phyDevice) m = None"
      using Cons.prems(5) by (simp add: less_Suc_eq_le)
    with True g2 p2 k show ?thesis
      unfolding step by (intro exI[of _ "Suc k"]) simp
  next
    case False
    then have "lastIndexBelow (hasGraphics phyDevice) (Suc k) = None \<or>
               lastIndexBelow (canPresent phyDevice) (Suc k) = None"
      using g2 p2 unfolding isComplete_def by auto
    with Cons.prems(5)
    have inv: "\<forall>m\<le>Suc k. lastIndexBelow (hasGraphics phyDevice) m = None \<or>
                         lastIndexBelow (canPresent phyDevice) m = None"
      by (auto simp: le_Suc_eq)
    from k have k': "Suc k \<le> length ?all" by simp
    from Cons.IH[OF d k' g2 p2 inv] False show ?thesis
      unfolding step by simp
  qed
qed

lemma std_clamp_max_min:
  "lo \<le> hi \<Longrightarrow> std_clamp v lo hi = Inr (max lo (min hi v))"
  by (auto simp: std_clamp_def max_def min_def)

lemma eraseAvailable_eq: "eraseAvailable avail req = req - set avail"
  by (induction avail arbitrary: req) auto

lemma exampleDevice_enumerate:
  "enumerateDeviceExtensions (exampleDevice flags support caps) =
     Inr [''VK_KHR_maintenance1'', ''VK_KHR_swapchain'']"
  by (simp add: enumerateDeviceExtensions_def exampleDevice_def VK_ASSERT_def)

lemma querySwapChainSupport_Inr:
  "querySwapChainSupport phyDevice = Inr details \<longleftrightarrow>
     capabilitiesResult phyDevice = VK_SUCCESS \<and>
     details = \<lparr>capabilities = surfaceCapabilities phyDevice,
                formats = surfaceFormats phyDevice,
                presentModes = surfacePresentModes phyDevice\<rparr>"
  by (auto simp: querySwapChainSupport_def VK_ASSERT_def)

lemma chooseSwapChainFormat_loop_Some:
  "chooseSwapChainFormat_loop fs = Some f \<Longrightarrow>
     f = \<lparr>format = VK_FORMAT_B8G8R8A8_SRGB, colorSpace = VK_COLOR_SPACE_SRGB_NONLINEAR_KHR\<rparr> \<and>
     f \<in> set fs"
  by (induction fs) (auto split: if_splits)

lemma chooseSwapChainFormat_loop_None:
  "chooseSwapChainFormat_loop fs = None \<longleftrightarrow>
     \<lparr>format = VK_FORMAT_B8G8R8A8_SRGB, colorSpace = VK_COLOR_SPACE_SRGB_NONLINEAR_KHR\<rparr> \<notin> set fs"
  by (induction fs) auto

section \<open>Queue family resolver: which family each index names\<close>

text \<open>
  Claim C1, as the specification states it, fails. On an adapter whose families 0 and 1
  are graphics-only and whose family 2 can only present, the scan ends at family 2 with
  graphics index 1: family 1 has overwritten the index that family 0 set. The first
  graphics-capable family is family 0.
\<close>

theorem findQueueFamilies_first_counterexample:
  "graphicsFamily (findQueueFamilies threeFamilies) = Some 1 \<and>
   graphicsFamily (findQueueFamilies_first threeFamilies) = Some 0"
  by (simp add: threeFamilies_def exampleDevice_def findQueueFamilies_def
      findQueueFamilies_first_def hasGraphics_def VK_QUEUE_GRAPHICS_BIT_def isComplete_def
      Let_def upt_rec)

text \<open>
  Claim C1, amended. \<open>findQueueFamilies\<close> scans the families in index order and visits
  some number \<open>n\<close> of them. Its graphics index is the last visited family that advertises
  graphics capability, its present index is the last visited family that can present to
  the surface (each absent when no visited family has the capability); the two are
  found independently of each other. The scan ends as soon as both indices are
  assigned: it stops before the end of the list only with a complete result, and at no
  earlier point had both capabilities been seen.
\<close>

theorem findQueueFamilies_last_scanned:
  "\<exists>n\<le>length (queueFamilyProperties phyDevice).
     graphicsFamily (findQueueFamilies phyDevice)
       = map_option of_nat (lastIndexBelow (hasGraphics phyDevice) n) \<and>
     presentFamily (findQueueFamilies phyDevice)
       = map_option of_nat (lastIndexBelow (canPresent phyDevice) n) \<and>
     (n < length (queueFamilyProperties phyDevice) \<longrightarrow>
        isComplete (findQueueFamilies phyDevice)) \<and>
     (\<forall>m<n. lastIndexBelow (hasGraphics phyDevice) m = None \<or>
            lastIndexBelow (canPresent phyDevice) m = None)"
  unfolding findQueueFamilies_def
  using findQueueFamilies_loop_scan[of 0 phyDevice "queueFamilyProperties phyDevice"
      "\<lparr>graphicsFamily = None, presentFamily = None\<rparr>"]
  by simp

theorem findQueueFamilies_last_scanned_witness:
  "\<exists>n\<le>3.
     graphicsFamily (findQueueFamilies threeFamilies)
       = map_option of_nat (lastIndexBelow (hasGraphics threeFamilies) n) \<and>
     presentFamily (findQueueFamilies threeFamilies)
       = map_option of_nat (lastIndexBelow (canPresent threeFamilies) n) \<and>
     (n < 3 \<longrightarrow> isComplete (findQueueFamilies threeFamilies)) \<and>
     (\<forall>m<n. lastIndexBelow (hasGraphics threeFamilies) m = None \<or>
            lastIndexBelow (canPresent threeFamilies) m = None)"
proof -
  have len: "length (queueFamilyProperties threeFamilies) = 3"
    by (simp add: threeFamilies_def exampleDevice_def)
  show ?thesis
    using findQueueFamilies_last_scanned[of threeFamilies] unfolding len .
qed

section \<open>Extent selection\<close>

text \<open>
  Claim C2, as the specification states it, fails. A current extent of
  (0xFFFFFFFF, 720) is not the sentinel with both components at the maximum, so the
  claim has it returned unchanged; the code tests the width alone and answers with the
  clamped framebuffer size.
\<close>

theorem chooseSwapExtent_both_sentinel_counterexample:
  "height (currentExtent widthSentinelOnly) \<noteq> 0xFFFFFFFF \<and>
   chooseSwapExtent widthSentinelOnly (50, 4500) = Inr \<lparr>width = 100, height = 4000\<rparr> \<and>
   chooseSwapExtent widthSentinelOnly (50, 4500) \<noteq> Inr (currentExtent widthSentinelOnly)"
  by (simp add: widthSentinelOnly_def exampleCapabilities_def chooseSwapExtent_def std_clamp_def)

text \<open>
  Claim C2, amended. \<open>chooseSwapExtent\<close> returns the current extent unchanged unless
  its width is the maximum of \<open>uint32_t\<close> (the height is not examined). When the width
  is the maximum, it takes the framebuffer size and clamps each dimension on its own
  into the bounds of the surface (bounds that are in order, as \<open>std::clamp\<close> requires).
\<close>

theorem chooseSwapExtent_width_sentinel:
  "(width (currentExtent caps) \<noteq> 0xFFFFFFFF \<longrightarrow>
      chooseSwapExtent caps framebuffer = Inr (currentExtent caps)) \<and>
   (width (currentExtent caps) = 0xFFFFFFFF \<and>
    width (minImageExtent caps) \<le> width (maxImageExtent caps) \<and>
    height (minImageExtent caps) \<le> height (maxImageExtent caps) \<longrightarrow>
      chooseSwapExtent caps framebuffer =
        Inr \<lparr>width = max (width (minImageExtent caps))
                       (min (width (maxImageExtent caps)) (word_of_int (fst framebuffer))),
             height = max (height (minImageExtent caps))
                        (min (height (maxImageExtent caps)) (word_of_int (snd framebuffer)))\<rparr>)"
  by (simp add: chooseSwapExtent_def std_clamp_max_min)

text \<open>The two examples of the specification.\<close>

theorem chooseSwapExtent_width_sentinel_witness:
  "chooseSwapExtent (exampleCapabilities 2 0 \<lparr>width = 0xFFFFFFFF, height = 0xFFFFFFFF\<rparr>) (50, 4500)
     = Inr \<lparr>width = 100, height = 4000\<rparr> \<and>
   chooseSwapExtent (exampleCapabilities 2 0 \<lparr>width = 1280, height = 720\<rparr>) (50, 4500)
     = Inr \<lparr>width = 1280, height = 720\<rparr>"
  using chooseSwapExtent_width_sentinel
          [of "exampleCapabilities 2 0 \<lparr>width = 0xFFFFFFFF, height = 0xFFFFFFFF\<rparr>" "(50, 4500)"]
        chooseSwapExtent_width_sentinel
          [of "exampleCapabilities 2 0 \<lparr>width = 1280, height = 720\<rparr>" "(50, 4500)"]
  by (simp add: exampleCapabilities_def)

section \<open>Suitability\<close>

text \<open>
  Claim C5. When the enumeration of the adapter's device extensions yields the list
  \<open>availableExtensions\<close>, \<open>checkDeviceExtensionSupport\<close> returns true if and only if
  every required name is among the available names. Both lists enter only through
  their sets of names, so neither order nor duplicates matter.
\<close>

theorem checkDeviceExtensionSupport_subset:
  assumes "enumerateDeviceExtensions phyDevice = Inr availableExtensions"
  shows "checkDeviceExtensionSupport requiredExtensions phyDevice =
           Inr (set requiredExtensions \<subseteq> set availableExtensions) \<and>
         (\<forall>phyDevice' availableExtensions' requiredExtensions'.
            enumerateDeviceExtensions phyDevice' = Inr availableExtensions' \<and>
            set availableExtensions' = set availableExtensions \<and>
            set requiredExtensions' = set requiredExtensions \<longrightarrow>
            checkDeviceExtensionSupport requiredExtensions' phyDevice' =
              checkDeviceExtensionSupport requiredExtensions phyDevice)"
  using assms by (simp add: checkDeviceExtensionSupport_def eraseAvailable_eq)

text \<open>
  A duplicated required name against an adapter that has it, and a required name the
  adapter lacks.
\<close>

theorem checkDeviceExtensionSupport_subset_witness:
  "checkDeviceExtensionSupport [''VK_KHR_swapchain'', ''VK_KHR_swapchain''] threeFamilies = Inr True \<and>
   checkDeviceExtensionSupport [''VK_KHR_ray_query'', ''VK_KHR_swapchain''] threeFamilies = Inr False"
  using checkDeviceExtensionSupport_subset
          [OF exampleDevice_enumerate, of "[''VK_KHR_swapchain'', ''VK_KHR_swapchain'']"
             "[1, 1, 0]" "\<lambda>i. i = 2" "exampleCapabilities 2 0 \<lparr>width = 1280, height = 720\<rparr>"]
        checkDeviceExtensionSupport_subset
          [OF exampleDevice_enumerate, of "[''VK_KHR_ray_query'', ''VK_KHR_swapchain'']"
             "[1, 1, 0]" "\<lambda>i. i = 2" "exampleCapabilities 2 0 \<lparr>width = 1280, height = 720\<rparr>"]
  by (simp add: threeFamilies_def)

lemma threeFamilies_indices:
  "findQueueFamilies threeFamilies = \<lparr>graphicsFamily = Some 1, presentFamily = Some 2\<rparr>"
  by (simp add: threeFamilies_def exampleDevice_def findQueueFamilies_def
      VK_QUEUE_GRAPHICS_BIT_def isComplete_def Let_def)

lemma oneFamily_indices:
  "findQueueFamilies (oneFamily caps) = \<lparr>graphicsFamily = Some 0, presentFamily = Some 0\<rparr>"
  by (simp add: oneFamily_def exampleDevice_def findQueueFamilies_def
      VK_QUEUE_GRAPHICS_BIT_def isComplete_def Let_def)

lemma exampleDevice_support:
  "querySwapChainSupport (exampleDevice flags support caps) =
     Inr \<lparr>capabilities = caps,
          formats = [\<lparr>format = 44, colorSpace = 0\<rparr>, \<lparr>format = 50, colorSpace = 0\<rparr>],
          presentModes = [2]\<rparr>"
  by (simp add: querySwapChainSupport_Inr exampleDevice_def)

text \<open>
  Claim C4. \<open>isDeviceSuitable\<close> returns true for an adapter if and only if (a) the
  queue family indices found for the adapter and the surface are complete, (b) the
  enumeration of its device extensions yields every required name, and (c) the
  swap-chain support queried for the surface has a non-empty format list and a non-empty
  present-mode list. The lists are the ones the queries hand back: a query that fails
  raises out of \<open>isDeviceSuitable\<close>, which then returns nothing.
\<close>

theorem isDeviceSuitable_iff:
  "isDeviceSuitable requiredExtensions phyDevice = Inr True \<longleftrightarrow>
     isComplete (findQueueFamilies phyDevice) \<and>
     (\<exists>availableExtensions. enumerateDeviceExtensions phyDevice = Inr availableExtensions \<and>
        set requiredExtensions \<subseteq> set availableExtensions) \<and>
     (\<exists>details. querySwapChainSupport phyDevice = Inr details \<and>
        formats details \<noteq> [] \<and> presentModes details \<noteq> [])"
proof (cases "enumerateDeviceExtensions phyDevice")
  case (Inl e)
  then show ?thesis
    by (simp add: isDeviceSuitable_def checkDeviceExtensionSupport_def)
next
  case (Inr avail)
  show ?thesis
  proof (cases "querySwapChainSupport phyDevice")
    case (Inl e)
    with Inr show ?thesis
      by (simp add: isDeviceSuitable_def checkDeviceExtensionSupport_def eraseAvailable_eq Let_def)
  next
    case inner: (Inr details)
    with Inr show ?thesis
      by (auto simp: isDeviceSuitable_def checkDeviceExtensionSupport_def eraseAvailable_eq Let_def)
  qed
qed

theorem isDeviceSuitable_iff_witness:
  "isDeviceSuitable [''VK_KHR_swapchain''] threeFamilies = Inr True \<and>
   isDeviceSuitable [''VK_KHR_ray_query''] threeFamilies \<noteq> Inr True"
  using isDeviceSuitable_iff[of "[''VK_KHR_swapchain'']" threeFamilies]
        isDeviceSuitable_iff[of "[''VK_KHR_ray_query'']" threeFamilies]
  by (simp add: threeFamilies_indices isComplete_def)
     (simp add: threeFamilies_def exampleDevice_enumerate exampleDevice_support)

section \<open>Format selection\<close>

text \<open>
  Claim C6. For a non-empty list of offered formats, \<open>chooseSwapChainFormat\<close> returns
  the pair (\<open>VK_FORMAT_B8G8R8A8_SRGB\<close>, \<open>VK_COLOR_SPACE_SRGB_NONLINEAR_KHR\<close>) when that
  pair occurs anywhere in the list, and the first element of the list otherwise.
\<close>

theorem chooseSwapChainFormat_preferred_or_first:
  "availableFormats = first # others \<Longrightarrow>
   chooseSwapChainFormat availableFormats =
     Inr (if \<lparr>format = VK_FORMAT_B8G8R8A8_SRGB, colorSpace = VK_COLOR_SPACE_SRGB_NONLINEAR_KHR\<rparr>
               \<in> set availableFormats
          then \<lparr>format = VK_FORMAT_B8G8R8A8_SRGB, colorSpace = VK_COLOR_SPACE_SRGB_NONLINEAR_KHR\<rparr>
          else first)"
proof (cases "chooseSwapChainFormat_loop availableFormats")
  case None
  assume "availableFormats = first # others"
  with None show ?thesis
    using chooseSwapChainFormat_loop_None[of availableFormats]
    by (simp add: chooseSwapChainFormat_def)
next
  case (Some f)
  assume "availableFormats = first # others"
  from chooseSwapChainFormat_loop_Some[OF Some] Some show ?thesis
    by (auto simp: chooseSwapChainFormat_def)
qed

text \<open>The seed inputs of the specification: [X, preferred, Y] and [X, Y].\<close>

theorem chooseSwapChainFormat_preferred_or_first_witness:
  "chooseSwapChainFormat
     [\<lparr>format = 44, colorSpace = 0\<rparr>, \<lparr>format = 50, colorSpace = 0\<rparr>, \<lparr>format = 37, colorSpace = 0\<rparr>]
     = Inr \<lparr>format = 50, colorSpace = 0\<rparr> \<and>
   chooseSwapChainFormat [\<lparr>format = 44, colorSpace = 0\<rparr>, \<lparr>format = 37, colorSpace = 0\<rparr>]
     = Inr \<lparr>format = 44, colorSpace = 0\<rparr>"
  using chooseSwapChainFormat_preferred_or_first
          [of "[\<lparr>format = 44, colorSpace = 0\<rparr>, \<lparr>format = 50, colorSpace = 0\<rparr>,
                \<lparr>format = 37, colorSpace = 0\<rparr>]"
              "\<lparr>format = 44, colorSpace = 0\<rparr>"
              "[\<lparr>format = 50, colorSpace = 0\<rparr>, \<lparr>format = 37, colorSpace = 0\<rparr>]"]
        chooseSwapChainFormat_preferred_or_first
          [of "[\<lparr>format = 44, colorSpace = 0\<rparr>, \<lparr>format = 37, colorSpace = 0\<rparr>]"
              "\<lparr>format = 44, colorSpace = 0\<rparr>" "[\<lparr>format = 37, colorSpace = 0\<rparr>]"]
  by (simp add: VK_FORMAT_B8G8R8A8_SRGB_def VK_COLOR_SPACE_SRGB_NONLINEAR_KHR_def)

lemma threeFamilies_support:
  "querySwapChainSupport threeFamilies =
     Inr \<lparr>capabilities = exampleCapabilities 2 0 \<lparr>width = 1280, height = 720\<rparr>,
          formats = [\<lparr>format = 44, colorSpace = 0\<rparr>, \<lparr>format = 50, colorSpace = 0\<rparr>],
          presentModes = [2]\<rparr>"
  by (simp add: threeFamilies_def exampleDevice_support)

lemma oneFamily_support:
  "querySwapChainSupport (oneFamily caps) =
     Inr \<lparr>capabilities = caps,
          formats = [\<lparr>format = 44, colorSpace = 0\<rparr>, \<lparr>format = 50, colorSpace = 0\<rparr>],
          presentModes = [2]\<rparr>"
  by (simp add: oneFamily_def exampleDevice_support)

text \<open>
  Claim C10. On the empty list the fallback \<open>formats[0]\<close> of \<open>chooseSwapChainFormat\<close>
  reads past the end of the vector, and the result is undefined. On a non-empty list
  the function returns an element of the list. An adapter that \<open>isDeviceSuitable\<close>
  accepts has a non-empty format list, so for it the function is defined.
\<close>

theorem chooseSwapChainFormat_defined_iff_nonempty:
  "chooseSwapChainFormat [] = Inl UndefinedBehaviour \<and>
   (availableFormats \<noteq> [] \<longrightarrow>
      (\<exists>f \<in> set availableFormats. chooseSwapChainFormat availableFormats = Inr f)) \<and>
   (isDeviceSuitable requiredExtensions phyDevice = Inr True \<longrightarrow>
      (\<exists>support f. querySwapChainSupport phyDevice = Inr support \<and> f \<in> set (formats support) \<and>
         chooseSwapChainFormat (formats support) = Inr f))"
proof -
  have nonempty: "\<exists>f \<in> set fs. chooseSwapChainFormat fs = Inr f" if "fs \<noteq> []" for fs
  proof (cases "chooseSwapChainFormat_loop fs")
    case None
    with that show ?thesis
      by (cases fs) (simp_all add: chooseSwapChainFormat_def)
  next
    case (Some f)
    with chooseSwapChainFormat_loop_Some[OF Some] show ?thesis
      by (auto simp: chooseSwapChainFormat_def)
  qed
  have suitable: "\<exists>support. querySwapChainSupport phyDevice = Inr support \<and> formats support \<noteq> []"
    if "isDeviceSuitable requiredExtensions phyDevice = Inr True"
    using that
    by (auto simp: isDeviceSuitable_def Let_def split: sum.splits if_splits)
  show ?thesis
    using nonempty suitable by (fastforce simp: chooseSwapChainFormat_def)
qed

theorem chooseSwapChainFormat_defined_iff_nonempty_witness:
  "chooseSwapChainFormat [] = Inl UndefinedBehaviour \<and>
   (\<exists>f \<in> set [\<lparr>format = 44, colorSpace = 0\<rparr>, \<lparr>format = 37, colorSpace = 0\<rparr>].
      chooseSwapChainFormat [\<lparr>format = 44, colorSpace = 0\<rparr>, \<lparr>format = 37, colorSpace = 0\<rparr>] = Inr f) \<and>
   isDeviceSuitable [''VK_KHR_swapchain''] threeFamilies = Inr True \<and>
   (\<exists>support f. querySwapChainSupport threeFamilies = Inr support \<and> f \<in> set (formats support) \<and>
      chooseSwapChainFormat (formats support) = Inr f)"
proof -
  have en: "enumerateDeviceExtensions threeFamilies =
              Inr [''VK_KHR_maintenance1'', ''VK_KHR_swapchain'']"
    by (simp add: threeFamilies_def exampleDevice_enumerate)
  have s: "isDeviceSuitable [''VK_KHR_swapchain''] threeFamilies = Inr True"
    by (simp add: isDeviceSuitable_def checkDeviceExtensionSupport_def threeFamilies_indices
        isComplete_def threeFamilies_support en)
  show ?thesis
    using chooseSwapChainFormat_defined_iff_nonempty
            [of "[\<lparr>format = 44, colorSpace = 0\<rparr>, \<lparr>format = 37, colorSpace = 0\<rparr>]"
                "[''VK_KHR_swapchain'']" threeFamilies] s
    by simp
qed

section \<open>Swap chain creation: image count and sharing mode\<close>

text \<open>
  The create info that \<open>createSwapChain\<close> builds once the steps before it have
  succeeded, and the converse: it builds one only when they have.
\<close>

lemma createSwapChain_createInfo_eq:
  assumes "querySwapChainSupport physDevice = Inr support"
    and "chooseSwapChainFormat (formats support) = Inr surfaceFormat"
    and "chooseSwapExtent (capabilities support) framebuffer = Inr extent"
    and "graphicsFamily (findQueueFamilies physDevice) = Some g"
    and "presentFamily (findQueueFamilies physDevice) = Some p"
  shows "createSwapChain_createInfo physDevice framebuffer =
     Inr \<lparr>createInfo_minImageCount =
            (if maxImageCount (capabilities support) > 0 \<and>
                minImageCount (capabilities support) + 1 > maxImageCount (capabilities support)
             then maxImageCount (capabilities support)
             else minImageCount (capabilities support) + 1),
          imageFormat = format surfaceFormat,
          imageColorSpace = colorSpace surfaceFormat,
          imageExtent = extent,
          imageArrayLayers = 1,
          imageSharingMode =
            (if g \<noteq> p then VK_SHARING_MODE_CONCURRENT else VK_SHARING_MODE_EXCLUSIVE),
          queueFamilyIndexCount = (if g \<noteq> p then 2 else 0),
          pQueueFamilyIndices = (if g \<noteq> p then Some [g, p] else None),
          preTransform = currentTransform (capabilities support),
          presentMode = chooseSwapChainPresent (presentModes support),
          clipped = True\<rparr>"
  using assms by (simp add: createSwapChain_createInfo_def Let_def)

lemma createSwapChain_createInfo_Inr:
  assumes "createSwapChain_createInfo physDevice framebuffer = Inr createInfo"
  shows "\<exists>support surfaceFormat extent g p.
           querySwapChainSupport physDevice = Inr support \<and>
           chooseSwapChainFormat (formats support) = Inr surfaceFormat \<and>
           chooseSwapExtent (capabilities support) framebuffer = Inr extent \<and>
           graphicsFamily (findQueueFamilies physDevice) = Some g \<and>
           presentFamily (findQueueFamilies physDevice) = Some p"
  using assms
  by (auto simp: createSwapChain_createInfo_def Let_def split: sum.splits option.splits)

lemma exampleDevice_format:
  "chooseSwapChainFormat [\<lparr>format = 44, colorSpace = 0\<rparr>, \<lparr>format = 50, colorSpace = 0\<rparr>]
     = Inr \<lparr>format = 50, colorSpace = 0\<rparr>"
  by (simp add: chooseSwapChainFormat_def VK_FORMAT_B8G8R8A8_SRGB_def
      VK_COLOR_SPACE_SRGB_NONLINEAR_KHR_def)

lemma exampleCapabilities_extent:
  "chooseSwapExtent (exampleCapabilities lo hi \<lparr>width = 1280, height = 720\<rparr>) (800, 600)
     = Inr \<lparr>width = 1280, height = 720\<rparr>"
  by (simp add: chooseSwapExtent_def exampleCapabilities_def)

text \<open>
  Claim C7. When \<open>createSwapChain\<close> reaches the creation call, the image count it asks
  for is \<open>minImageCount + 1\<close>, except that a non-zero \<open>maxImageCount\<close> below that sum
  replaces it; a \<open>maxImageCount\<close> of zero never clamps. The sum is the \<open>uint32_t\<close> sum
  of the code; where it does not wrap (every \<open>minImageCount\<close> but the largest), the same
  holds of the numbers.
\<close>

theorem createSwapChain_imageCount:
  assumes "querySwapChainSupport physDevice = Inr support"
    and "chooseSwapChainFormat (formats support) = Inr surfaceFormat"
    and "chooseSwapExtent (capabilities support) framebuffer = Inr extent"
    and "isComplete (findQueueFamilies physDevice)"
  shows "\<exists>createInfo. createSwapChain_createInfo physDevice framebuffer = Inr createInfo \<and>
           createInfo_minImageCount createInfo =
             (if maxImageCount (capabilities support) \<noteq> 0 \<and>
                 maxImageCount (capabilities support) < minImageCount (capabilities support) + 1
              then maxImageCount (capabilities support)
              else minImageCount (capabilities support) + 1) \<and>
           (unat (minImageCount (capabilities support)) + 1 < 2 ^ 32 \<longrightarrow>
              unat (createInfo_minImageCount createInfo) =
                (if unat (maxImageCount (capabilities support)) \<noteq> 0 \<and>
                    unat (maxImageCount (capabilities support))
                      < unat (minImageCount (capabilities support)) + 1
                 then unat (maxImageCount (capabilities support))
                 else unat (minImageCount (capabilities support)) + 1))"
proof -
  from assms(4) obtain g p where
    gp: "graphicsFamily (findQueueFamilies physDevice) = Some g"
        "presentFamily (findQueueFamilies physDevice) = Some p"
    by (auto simp: isComplete_def)
  let ?lo = "minImageCount (capabilities support)"
  let ?hi = "maxImageCount (capabilities support)"
  have pos: "0 < ?hi \<longleftrightarrow> ?hi \<noteq> 0" by (simp add: word_greater_zero_iff)
  have nat_count: "unat (?lo + 1) = unat ?lo + 1" if "unat ?lo + 1 < 2 ^ 32"
    using that by (simp add: unat_word_ariths)
  have nat_less: "?hi < ?lo + 1 \<longleftrightarrow> unat ?hi < unat ?lo + 1" if "unat ?lo + 1 < 2 ^ 32"
    using nat_count[OF that] by (simp add: word_less_nat_alt)
  have nat_zero: "?hi \<noteq> 0 \<longleftrightarrow> unat ?hi \<noteq> 0" by (simp add: unat_eq_0)
  show ?thesis
    using createSwapChain_createInfo_eq[OF assms(1-3) gp, unfolded pos]
    by (auto simp: nat_count nat_less nat_zero)
qed

text \<open>The examples of the specification: min 2, max 0 gives 3; min 2, max 2 gives 2.\<close>

theorem createSwapChain_imageCount_witness:
  "(\<exists>createInfo.
      createSwapChain_createInfo
        (oneFamily (exampleCapabilities 2 0 \<lparr>width = 1280, height = 720\<rparr>)) (800, 600)
        = Inr createInfo \<and>
      createInfo_minImageCount createInfo = 3) \<and>
   (\<exists>createInfo.
      createSwapChain_createInfo
        (oneFamily (exampleCapabilities 2 2 \<lparr>width = 1280, height = 720\<rparr>)) (800, 600)
        = Inr createInfo \<and>
      createInfo_minImageCount createInfo = 2)"
proof -
  have c: "isComplete (findQueueFamilies (oneFamily caps))" for caps
    by (simp add: oneFamily_indices isComplete_def)
  have s: "querySwapChainSupport (oneFamily caps) =
     Inr \<lparr>capabilities = caps,
          formats = [\<lparr>format = 44, colorSpace = 0\<rparr>, \<lparr>format = 50, colorSpace = 0\<rparr>],
          presentModes = [2]\<rparr>" for caps
    by (simp add: oneFamily_def exampleDevice_support)
  have f: "chooseSwapChainFormat
       (formats \<lparr>capabilities = caps,
          formats = [\<lparr>format = 44, colorSpace = 0\<rparr>, \<lparr>format = 50, colorSpace = 0\<rparr>],
          presentModes = [2]\<rparr>) = Inr \<lparr>format = 50, colorSpace = 0\<rparr>" for caps :: VkSurfaceCapabilitiesKHR
    by (simp add: exampleDevice_format)
  have e: "chooseSwapExtent
       (capabilities \<lparr>capabilities = exampleCapabilities lo hi \<lparr>width = 1280, height = 720\<rparr>,
          formats = [\<lparr>format = 44, colorSpace = 0\<rparr>, \<lparr>format = 50, colorSpace = 0\<rparr>],
          presentModes = [2]\<rparr>) (800, 600) = Inr \<lparr>width = 1280, height = 720\<rparr>" for lo hi
    by (simp add: exampleCapabilities_extent)
  show ?thesis
    using createSwapChain_imageCount[OF s f e c, of 2 0]
          createSwapChain_imageCount[OF s f e c, of 2 2]
    by (auto simp: exampleCapabilities_def)
qed

text \<open>
  Claim C8. When the graphics and present family indices differ, the create info has
  concurrent sharing mode and lists exactly those two indices; when they are equal, it
  has exclusive sharing mode, a count of zero and no list. Exclusive mode never comes
  with a list.
\<close>

theorem createSwapChain_sharingMode:
  assumes "querySwapChainSupport physDevice = Inr support"
    and "chooseSwapChainFormat (formats support) = Inr surfaceFormat"
    and "chooseSwapExtent (capabilities support) framebuffer = Inr extent"
    and "graphicsFamily (findQueueFamilies physDevice) = Some g"
    and "presentFamily (findQueueFamilies physDevice) = Some p"
  shows "\<exists>createInfo. createSwapChain_createInfo physDevice framebuffer = Inr createInfo \<and>
           (if g \<noteq> p
            then imageSharingMode createInfo = VK_SHARING_MODE_CONCURRENT \<and>
                 queueFamilyIndexCount createInfo = 2 \<and>
                 pQueueFamilyIndices createInfo = Some [g, p]
            else imageSharingMode createInfo = VK_SHARING_MODE_EXCLUSIVE \<and>
                 queueFamilyIndexCount createInfo = 0 \<and>
                 pQueueFamilyIndices createInfo = None) \<and>
           (imageSharingMode createInfo = VK_SHARING_MODE_EXCLUSIVE \<longrightarrow>
              queueFamilyIndexCount createInfo = 0 \<and> pQueueFamilyIndices createInfo = None)"
  using createSwapChain_createInfo_eq[OF assms] by simp

theorem createSwapChain_sharingMode_witness:
  "(\<exists>createInfo.
      createSwapChain_createInfo threeFamilies (800, 600) = Inr createInfo \<and>
      imageSharingMode createInfo = VK_SHARING_MODE_CONCURRENT \<and>
      queueFamilyIndexCount createInfo = 2 \<and>
      pQueueFamilyIndices createInfo = Some [1, 2]) \<and>
   (\<exists>createInfo.
      createSwapChain_createInfo
        (oneFamily (exampleCapabilities 2 0 \<lparr>width = 1280, height = 720\<rparr>)) (800, 600)
        = Inr createInfo \<and>
      imageSharingMode createInfo = VK_SHARING_MODE_EXCLUSIVE \<and>
      queueFamilyIndexCount createInfo = 0 \<and>
      pQueueFamilyIndices createInfo = None)"
proof -
  let ?caps = "exampleCapabilities 2 0 \<lparr>width = 1280, height = 720\<rparr>"
  let ?support = "\<lparr>capabilities = ?caps,
          formats = [\<lparr>format = 44, colorSpace = 0\<rparr>, \<lparr>format = 50, colorSpace = 0\<rparr>],
          presentModes = [2]\<rparr>"
  have f: "chooseSwapChainFormat (formats ?support) = Inr \<lparr>format = 50, colorSpace = 0\<rparr>"
    by (simp add: exampleDevice_format)
  have e: "chooseSwapExtent (capabilities ?support) (800, 600) = Inr \<lparr>width = 1280, height = 720\<rparr>"
    by (simp add: exampleCapabilities_extent)
  have g3: "graphicsFamily (findQueueFamilies threeFamilies) = Some 1"
    and p3: "presentFamily (findQueueFamilies threeFamilies) = Some 2"
    by (simp_all add: threeFamilies_indices)
  have g1: "graphicsFamily (findQueueFamilies (oneFamily ?caps)) = Some 0"
    and p1: "presentFamily (findQueueFamilies (oneFamily ?caps)) = Some 0"
    by (simp_all add: oneFamily_indices)
  show ?thesis
    using createSwapChain_sharingMode[OF threeFamilies_support f e g3 p3]
          createSwapChain_sharingMode[OF oneFamily_support f e g1 p1]
    by auto
qed

section \<open>Logical device creation\<close>

text \<open>With complete indices and a successful enumeration, the creation call is issued.\<close>

lemma createLogicalDevice_complete_issues:
  assumes "graphicsFamily (findQueueFamilies (physicalDevice app)) = Some g"
    and "presentFamily (findQueueFamilies (physicalDevice app)) = Some p"
    and "enumerateDeviceExtensions (physicalDevice app) = Inr availableExtensions"
  shows "\<exists>createInfo.
           calls (snd (createLogicalDevice deviceHandle app)) = calls app @ [vkCreateDevice createInfo] \<and>
           map queueFamilyIndex (pQueueCreateInfos createInfo) = uniqueQueueFamilies g p"
  using assms
  by (auto simp: createLogicalDevice_def Let_def issue_def VK_ASSERT_def comp_def)

text \<open>
  Claim C9. When the queue family indices of the chosen adapter are not complete,
  \<open>createLogicalDevice\<close> ends with the exception of \<open>std::optional::value()\<close> and
  leaves the application as it was: no \<open>vkCreateDevice\<close> call has been issued and no
  device handle written.
\<close>

theorem createLogicalDevice_incomplete:
  assumes "\<not> isComplete (findQueueFamilies (physicalDevice app))"
  shows "createLogicalDevice deviceHandle app = (Inl BadOptionalAccess, app)"
  using assms
  by (auto simp: createLogicalDevice_def isComplete_def Let_def split: option.splits)

theorem createLogicalDevice_incomplete_witness:
  "\<not> isComplete (findQueueFamilies graphicsOnly) \<and>
   fst (createLogicalDevice 7 (exampleApplication graphicsOnly [])) = Inl BadOptionalAccess \<and>
   calls (snd (createLogicalDevice 7 (exampleApplication graphicsOnly []))) = [] \<and>
   device (snd (createLogicalDevice 7 (exampleApplication graphicsOnly []))) = None"
proof -
  have i: "findQueueFamilies graphicsOnly = \<lparr>graphicsFamily = Some 0, presentFamily = None\<rparr>"
    by (simp add: graphicsOnly_def exampleDevice_def findQueueFamilies_def
        VK_QUEUE_GRAPHICS_BIT_def isComplete_def Let_def)
  have n: "\<not> isComplete (findQueueFamilies (physicalDevice (exampleApplication graphicsOnly [])))"
    by (simp add: i isComplete_def exampleApplication_def)
  show ?thesis
    using createLogicalDevice_incomplete[OF n, of 7]
    by (simp add: i isComplete_def) (simp add: exampleApplication_def)
qed

section \<open>Teardown order\<close>

lemma fold_issue_calls:
  "calls (fold (\<lambda>v. issue (f v)) vs app) = calls app @ map f vs"
  by (induction vs arbitrary: app) (simp_all add: issue_def)

lemma fold_issue_enableValidationLayers:
  "enableValidationLayers (fold (\<lambda>v. issue (f v)) vs app) = enableValidationLayers app"
  by (induction vs arbitrary: app) (simp_all add: issue_def)

lemma cleanup_calls:
  "calls (cleanup destroyMessengerLoaded app) =
     calls app @ map vkDestroyImageView (swapChainImageViews app) @
     [vkDestroySwapchainKHR, vkDestroyDevice] @
     (if enableValidationLayers app \<and> destroyMessengerLoaded
      then [vkDestroyDebugUtilsMessengerEXT] else []) @
     [vkDestroySurfaceKHR, vkDestroyInstance, glfwDestroyWindow, glfwTerminate]"
  by (simp add: cleanup_def Let_def issue_def fold_issue_calls fold_issue_enableValidationLayers)

lemma precedes_append:
  assumes "b \<notin> set xs" and "a \<notin> set ys"
  shows "precedes a b (xs @ ys)"
  unfolding precedes_def
proof (intro allI impI)
  fix i j
  assume i: "i < length (xs @ ys)" and j: "j < length (xs @ ys)"
    and eq: "(xs @ ys) ! i = a \<and> (xs @ ys) ! j = b"
  have "i < length xs"
  proof (rule ccontr)
    assume "\<not> i < length xs"
    with i eq have "ys ! (i - length xs) = a" and "i - length xs < length ys"
      by (auto simp: nth_append)
    then have "a \<in> set ys" by (metis nth_mem)
    with assms(2) show False by simp
  qed
  moreover have "\<not> j < length xs"
  proof
    assume "j < length xs"
    with eq have "xs ! j = b" by (simp add: nth_append)
    with \<open>j < length xs\<close> have "b \<in> set xs" by (metis nth_mem)
    with assms(1) show False by simp
  qed
  ultimately show "i < j" by simp
qed

lemma precedes_split:
  "tr = xs @ ys \<Longrightarrow> b \<notin> set xs \<Longrightarrow> a \<notin> set ys \<Longrightarrow> precedes a b tr"
  by (simp add: precedes_append)

text \<open>
  Claim C3. The calls that \<open>cleanup\<close> issues release every image view strictly before
  the swap chain and the device, the swap chain strictly before the device, the device
  strictly before the debug messenger (released only when validation layers are enabled
  and its destroy function is found), then the surface, then the instance, then the
  window.
\<close>

theorem cleanup_release_order:
  "\<exists>tr. calls (cleanup destroyMessengerLoaded app) = calls app @ tr \<and>
     (\<forall>v \<in> set (swapChainImageViews app).
        vkDestroyImageView v \<in> set tr \<and>
        precedes (vkDestroyImageView v) vkDestroySwapchainKHR tr \<and>
        precedes (vkDestroyImageView v) vkDestroyDevice tr) \<and>
     vkDestroySwapchainKHR \<in> set tr \<and>
     precedes vkDestroySwapchainKHR vkDestroyDevice tr \<and>
     vkDestroyDevice \<in> set tr \<and>
     (vkDestroyDebugUtilsMessengerEXT \<in> set tr \<longleftrightarrow>
        enableValidationLayers app \<and> destroyMessengerLoaded) \<and>
     precedes vkDestroyDevice vkDestroyDebugUtilsMessengerEXT tr \<and>
     precedes vkDestroyDevice vkDestroySurfaceKHR tr \<and>
     precedes vkDestroyDevice vkDestroyInstance tr \<and>
     precedes vkDestroyDebugUtilsMessengerEXT vkDestroySurfaceKHR tr \<and>
     vkDestroySurfaceKHR \<in> set tr \<and>
     precedes vkDestroySurfaceKHR vkDestroyInstance tr \<and>
     vkDestroyInstance \<in> set tr \<and>
     precedes vkDestroyInstance glfwDestroyWindow tr \<and>
     glfwDestroyWindow \<in> set tr"
proof -
  let ?views = "map vkDestroyImageView (swapChainImageViews app)"
  let ?dbg = "if enableValidationLayers app \<and> destroyMessengerLoaded
              then [vkDestroyDebugUtilsMessengerEXT] else []"
  let ?rest = "[vkDestroySurfaceKHR, vkDestroyInstance, glfwDestroyWindow, glfwTerminate]"
  let ?tr = "?views @ [vkDestroySwapchainKHR, vkDestroyDevice] @ ?dbg @ ?rest"
  have tr: "calls (cleanup destroyMessengerLoaded app) = calls app @ ?tr"
    by (simp add: cleanup_calls)
  have views: "precedes (vkDestroyImageView v) vkDestroySwapchainKHR ?tr" for v
    by (rule precedes_append) auto
  have views_dev: "precedes (vkDestroyImageView v) vkDestroyDevice ?tr" for v
    by (rule precedes_append) auto
  have chain: "precedes vkDestroySwapchainKHR vkDestroyDevice ?tr"
    by (rule precedes_split[where xs = "?views @ [vkDestroySwapchainKHR]"
          and ys = "vkDestroyDevice # ?dbg @ ?rest"]) auto
  have dev_dbg: "precedes vkDestroyDevice vkDestroyDebugUtilsMessengerEXT ?tr"
    by (rule precedes_split[where xs = "?views @ [vkDestroySwapchainKHR, vkDestroyDevice]"
          and ys = "?dbg @ ?rest"]) auto
  have dev_surf: "precedes vkDestroyDevice vkDestroySurfaceKHR ?tr"
    by (rule precedes_split[where xs = "?views @ [vkDestroySwapchainKHR, vkDestroyDevice]"
          and ys = "?dbg @ ?rest"]) auto
  have dev_inst: "precedes vkDestroyDevice vkDestroyInstance ?tr"
    by (rule precedes_split[where xs = "?views @ [vkDestroySwapchainKHR, vkDestroyDevice]"
          and ys = "?dbg @ ?rest"]) auto
  have dbg_surf: "precedes vkDestroyDebugUtilsMessengerEXT vkDestroySurfaceKHR ?tr"
    by (rule precedes_split[where xs = "?views @ [vkDestroySwapchainKHR, vkDestroyDevice] @ ?dbg"
          and ys = "?rest"]) auto
  have surf_inst: "precedes vkDestroySurfaceKHR vkDestroyInstance ?tr"
    by (rule precedes_split[where
          xs = "?views @ [vkDestroySwapchainKHR, vkDestroyDevice] @ ?dbg @ [vkDestroySurfaceKHR]"
          and ys = "[vkDestroyInstance, glfwDestroyWindow, glfwTerminate]"]) auto
  have inst_win: "precedes vkDestroyInstance glfwDestroyWindow ?tr"
    by (rule precedes_split[where
          xs = "?views @ [vkDestroySwapchainKHR, vkDestroyDevice] @ ?dbg @
                [vkDestroySurfaceKHR, vkDestroyInstance]"
          and ys = "[glfwDestroyWindow, glfwTerminate]"]) auto
  have mem: "(\<forall>v \<in> set (swapChainImageViews app). vkDestroyImageView v \<in> set ?tr) \<and>
     vkDestroySwapchainKHR \<in> set ?tr \<and> vkDestroyDevice \<in> set ?tr \<and>
     (vkDestroyDebugUtilsMessengerEXT \<in> set ?tr \<longleftrightarrow>
        enableValidationLayers app \<and> destroyMessengerLoaded) \<and>
     vkDestroySurfaceKHR \<in> set ?tr \<and> vkDestroyInstance \<in> set ?tr \<and>
     glfwDestroyWindow \<in> set ?tr"
    by auto
  show ?thesis
    using tr views views_dev chain dev_dbg dev_surf dev_inst dbg_surf surf_inst inst_win mem
    by (intro exI[of _ ?tr]) blast
qed

text \<open>A teardown with two image views, validation layers and a loaded destroy function.\<close>

theorem cleanup_release_order_witness:
  "calls (cleanup True (exampleApplication threeFamilies [10, 11])) =
     [vkDestroyImageView 10, vkDestroyImageView 11, vkDestroySwapchainKHR, vkDestroyDevice,
      vkDestroyDebugUtilsMessengerEXT, vkDestroySurfaceKHR, vkDestroyInstance,
      glfwDestroyWindow, glfwTerminate] \<and>
   (\<exists>tr. calls (cleanup True (exampleApplication threeFamilies [10, 11])) = tr \<and>
      precedes (vkDestroyImageView 10) vkDestroySwapchainKHR tr \<and>
      precedes (vkDestroyImageView 11) vkDestroySwapchainKHR tr \<and>
      precedes vkDestroySwapchainKHR vkDestroyDevice tr \<and>
      precedes vkDestroyDevice vkDestroyDebugUtilsMessengerEXT tr \<and>
      precedes vkDestroyDebugUtilsMessengerEXT vkDestroySurfaceKHR tr \<and>
      precedes vkDestroySurfaceKHR vkDestroyInstance tr \<and>
      precedes vkDestroyInstance glfwDestroyWindow tr)"
proof -
  let ?app = "exampleApplication threeFamilies [10, 11]"
  have v: "swapChainImageViews ?app = [10, 11]" and c: "calls ?app = []"
    and l: "enableValidationLayers ?app"
    by (simp_all add: exampleApplication_def)
  have tr: "calls (cleanup True ?app) =
     [vkDestroyImageView 10, vkDestroyImageView 11, vkDestroySwapchainKHR, vkDestroyDevice,
      vkDestroyDebugUtilsMessengerEXT, vkDestroySurfaceKHR, vkDestroyInstance,
      glfwDestroyWindow, glfwTerminate]"
    by (simp add: cleanup_calls v c l)
  show ?thesis
    using cleanup_release_order[of True ?app] tr
    by (simp add: v c)
qed

end
